theory Spec2Isabelle
  imports Main
begin

section \<open>The dataclass patch: declaration tracking over a store of class objects\<close>

text \<open>
  The module \<^verbatim>\<open>linkml_runtime/utils/dataclass_patch.py\<close> replaces
  \<^verbatim>\<open>dataclasses.dataclass\<close> by a decorator that remembers, in a class attribute
  \<^verbatim>\<open>__declared_dataclasses__\<close>, the \<^verbatim>\<open>id\<close> of every class it has processed.
  The attribute holds a Python \<^verbatim>\<open>set\<close>: a mutable object that subclasses reach by
  attribute inheritance, so several classes may refer to one and the same set. The
  embedding therefore keeps an explicit store: class objects and set objects are named
  by their identities, and the attribute of a class is a reference to a set object.
  The embedding is of the branch that installs the patch (Python 3.10 and later); on
  older versions the module only warns and re-exports the library's decorator.
\<close>

subsection \<open>Class objects and set objects\<close>

type_synonym cid = nat
  \<comment> \<open>\<^verbatim>\<open>id(cls)\<close>: the identity of a class object\<close>

type_synonym addr = nat
  \<comment> \<open>the identity of a \<^verbatim>\<open>set\<close> object\<close>

record heap =
  mro_tail :: "cid \<Rightarrow> cid list"
    \<comment> \<open>\<^verbatim>\<open>cls.__mro__\<close> after its first entry (which is \<^verbatim>\<open>cls\<close> itself); the
        final \<^verbatim>\<open>object\<close>, which never carries the attribute, is left out\<close>
  declared :: "cid \<Rightarrow> addr option"
    \<comment> \<open>the entry \<^verbatim>\<open>__declared_dataclasses__\<close> of \<^verbatim>\<open>cls.__dict__\<close>, when there is one\<close>
  set_obj :: "addr \<Rightarrow> cid set"
    \<comment> \<open>the members of each set object\<close>
  next_addr :: addr
    \<comment> \<open>the identity the next new set object gets\<close>
  next_cid :: cid
    \<comment> \<open>a bound: every class identity handed out so far is below it\<close>

text \<open>
  \<^verbatim>\<open>getattr(cls, _DECLARED_DATA_CLASSES, None)\<close> looks the attribute up in the
  dictionaries of the classes of \<^verbatim>\<open>cls.__mro__\<close>, in order, and answers with the
  first one found.
\<close>

fun first_declared :: "heap \<Rightarrow> cid list \<Rightarrow> addr option" where
  "first_declared h [] = None"
| "first_declared h (k # ks) =
     (case declared h k of Some a \<Rightarrow> Some a | None \<Rightarrow> first_declared h ks)"

definition getattr_declared :: "heap \<Rightarrow> cid \<Rightarrow> addr option" where
  "getattr_declared h c = first_declared h (c # mro_tail h c)"

text \<open>\<^verbatim>\<open>set()\<close>: a new, empty set object, distinct from every object in use.\<close>

definition new_set :: "heap \<Rightarrow> addr \<times> heap" where
  "new_set h =
     (next_addr h,
      h\<lparr>set_obj := (set_obj h)(next_addr h := {}), next_addr := Suc (next_addr h)\<rparr>)"

text \<open>\<^verbatim>\<open>setattr(cls, _DECLARED_DATA_CLASSES, seen)\<close> writes into the dictionary of
  \<^verbatim>\<open>cls\<close> itself.\<close>

definition setattr_declared :: "heap \<Rightarrow> cid \<Rightarrow> addr \<Rightarrow> heap" where
  "setattr_declared h c a = h\<lparr>declared := (declared h)(c \<mapsto> a)\<rparr>"

text \<open>\<^verbatim>\<open>seen.add(id(cls))\<close> mutates the set object that \<^verbatim>\<open>seen\<close> refers to.\<close>

definition set_add :: "heap \<Rightarrow> addr \<Rightarrow> cid \<Rightarrow> heap" where
  "set_add h a c = h\<lparr>set_obj := (set_obj h)(a := insert c (set_obj h a))\<rparr>"

subsection \<open>The options and the call of the synthesizer\<close>

record options =
  init :: bool
  repr :: bool
  eq :: bool
  order :: bool
  unsafe_hash :: bool
  frozen :: bool
  match_args :: bool
  kw_only :: bool
  slots :: bool
  weakref_slot :: bool

text \<open>The defaults of the keyword parameters of \<^verbatim>\<open>dataclass\<close>.\<close>

definition default_options :: options where
  "default_options =
     \<lparr>init = True, repr = True, eq = True, order = False, unsafe_hash = False,
      frozen = False, match_args = True, kw_only = False, slots = False,
      weakref_slot = False\<rparr>"

text \<open>
  A call \<^verbatim>\<open>dataclasses._process_class(cls, init, repr, eq, order, unsafe_hash,
  frozen, match_args, kw_only, slots)\<close>: the class and nine positional arguments.
\<close>

datatype process_call =
  ProcessClass cid bool bool bool bool bool bool bool bool bool

fun call_cls :: "process_call \<Rightarrow> cid" where
  "call_cls (ProcessClass c i r e ord u f m k s) = c"

fun call_slots :: "process_call \<Rightarrow> bool" where
  "call_slots (ProcessClass c i r e ord u f m k s) = s"

fun call_eq :: "process_call \<Rightarrow> bool" where
  "call_eq (ProcessClass c i r e ord u f m k s) = e"

fun call_unsafe_hash :: "process_call \<Rightarrow> bool" where
  "call_unsafe_hash (ProcessClass c i r e ord u f m k s) = u"

text \<open>
  \<^verbatim>\<open>dataclasses._process_class\<close> belongs to the Python library, not to this module:
  it is a parameter of the embedding. It receives the call and the store, raises or
  returns a class object, and leaves a store behind.
\<close>

type_synonym 'e synthesizer = "process_call \<Rightarrow> heap \<Rightarrow> ('e + cid) \<times> heap"

text \<open>
  The state of a run: the store, and the calls of \<^verbatim>\<open>_process_class\<close> made so far
  (a trace, kept out of the synthesizer's reach).
\<close>

record world =
  hp :: heap
  calls :: "process_call list"

subsection \<open>The decorator\<close>

text \<open>The argument list that \<^verbatim>\<open>wrap\<close> builds in lines 75-76.\<close>

definition process_args :: "options \<Rightarrow> cid \<Rightarrow> process_call" where
  "process_args opts c =
     ProcessClass c (init opts) (repr opts) (eq opts) (order opts) (unsafe_hash opts)
       (frozen opts) (match_args opts) (kw_only opts) (slots opts)"

text \<open>Lines 74-76: \<^verbatim>\<open>seen.add(id(cls))\<close>, then the call, whose outcome is returned
  or raised as it is.\<close>

definition add_and_process ::
  "'e synthesizer \<Rightarrow> options \<Rightarrow> cid \<Rightarrow> addr \<Rightarrow> world \<Rightarrow> ('e + cid) \<times> world" where
  "add_and_process synth opts c seen w =
     (let h = set_add (hp w) seen c;
          (r, h') = synth (process_args opts c) h
      in (r, \<lparr>hp = h', calls = calls w @ [process_args opts c]\<rparr>))"

text \<open>
  \<^verbatim>\<open>
  def wrap(cls):
      seen = getattr(cls, _DECLARED_DATA_CLASSES, None)
      if seen is None:
          seen = set()
          setattr(cls, _DECLARED_DATA_CLASSES, seen)
      elif id(cls) in seen:
          return cls
      seen.add(id(cls))
      return dataclasses._process_class(cls, init, repr, eq, order, unsafe_hash,
                            frozen, match_args, kw_only, slots)
  \<close>
  Both \<^verbatim>\<open>dataclass(cls, ...)\<close> and \<^verbatim>\<open>dataclass(...)(cls)\<close> end in \<^verbatim>\<open>wrap(cls)\<close>.
\<close>

definition wrap :: "'e synthesizer \<Rightarrow> options \<Rightarrow> cid \<Rightarrow> world \<Rightarrow> ('e + cid) \<times> world" where
  "wrap synth opts c w =
     (case getattr_declared (hp w) c of
        None \<Rightarrow>
          (let (seen, h1) = new_set (hp w);
               h2 = setattr_declared h1 c seen
           in add_and_process synth opts c seen (w\<lparr>hp := h2\<rparr>))
      | Some seen \<Rightarrow>
          if c \<in> set_obj (hp w) seen then (Inr c, w)
          else add_and_process synth opts c seen w)"

text \<open>
  \<^verbatim>\<open>
  def dataclass(cls=None, /, *, init=True, ..., weakref_slot=False):
      def wrap(cls): ...
      if cls is None:
          return wrap
      return wrap(cls)
  \<close>
  Called with parentheses, the result is the decorator, still to be given its class;
  called with a class, it is the run of \<^verbatim>\<open>wrap\<close> on that class.
\<close>

definition dataclass ::
  "'e synthesizer \<Rightarrow> cid option \<Rightarrow> options \<Rightarrow>
     (cid \<Rightarrow> world \<Rightarrow> ('e + cid) \<times> world) + (world \<Rightarrow> ('e + cid) \<times> world)" where
  "dataclass synth cls opts =
     (case cls of None \<Rightarrow> Inl (wrap synth opts) | Some c \<Rightarrow> Inr (wrap synth opts c))"

text \<open>
  \<^verbatim>\<open>
  def is_direct_dataclass(cls: type):
      return id(cls) in getattr(cls, _DECLARED_DATA_CLASSES, set())
  \<close>
  The default \<^verbatim>\<open>set()\<close> is a temporary empty set: it is read once and dropped.
\<close>

definition is_direct_dataclass :: "heap \<Rightarrow> cid \<Rightarrow> bool" where
  "is_direct_dataclass h c =
     (c \<in> (case getattr_declared h c of None \<Rightarrow> {} | Some seen \<Rightarrow> set_obj h seen))"

subsection \<open>Sequences of calls\<close>

text \<open>
  The two entry points as steps on the state of a run. \<^verbatim>\<open>is_direct_dataclass\<close>
  has no \<^verbatim>\<open>setattr\<close> and no \<^verbatim>\<open>add\<close>: its step leaves the state as it was.
\<close>

datatype call = Apply options cid | IsDirect cid

datatype 'e answer = Returned cid | Raised 'e | Answered bool

fun exec :: "'e synthesizer \<Rightarrow> call \<Rightarrow> world \<Rightarrow> 'e answer \<times> world" where
  "exec synth (Apply opts c) w =
     (case wrap synth opts c w of
        (Inr k, w') \<Rightarrow> (Returned k, w')
      | (Inl e, w') \<Rightarrow> (Raised e, w'))"
| "exec synth (IsDirect c) w = (Answered (is_direct_dataclass (hp w) c), w)"

text \<open>A caller that goes on after an exception, as a test harness does.\<close>

fun run :: "'e synthesizer \<Rightarrow> call list \<Rightarrow> world \<Rightarrow> 'e answer list \<times> world" where
  "run synth [] w = ([], w)"
| "run synth (x # xs) w =
     (let (a, w1) = exec synth x w; (as, w2) = run synth xs w1 in (a # as, w2))"

text \<open>The calls that can change the state, and the answers they give.\<close>

fun is_apply :: "call \<Rightarrow> bool" where
  "is_apply (Apply opts c) = True"
| "is_apply (IsDirect c) = False"

fun of_apply :: "'e answer \<Rightarrow> bool" where
  "of_apply (Answered b) = False"
| "of_apply (Returned k) = True"
| "of_apply (Raised e) = True"

subsection \<open>The environment: class statements and synthesizers\<close>

text \<open>
  A \<^verbatim>\<open>class\<close> statement makes a new class object with the resolution order
  computed from its bases and a dictionary without the attribute
  \<^verbatim>\<open>__declared_dataclasses__\<close>. Its identity \<open>k\<close> is the one the allocator hands
  out: \<^verbatim>\<open>id\<close> is unique among live objects only, so \<open>k\<close> is any identity that no
  live class object has, and may be the identity of a class object that has been
  collected. The object that had identity \<open>k\<close> before is gone with its dictionary; the
  integers that \<^verbatim>\<open>seen.add(id(cls))\<close> has put into set objects stay where they are.
\<close>

definition new_class :: "heap \<Rightarrow> cid \<Rightarrow> cid list \<Rightarrow> heap" where
  "new_class h k ancestors =
     h\<lparr>mro_tail := (mro_tail h)(k := ancestors),
       declared := (declared h)(k := None),
       next_cid := max (next_cid h) (Suc k)\<rparr>"

text \<open>\<^verbatim>\<open>class Derived(Base): pass\<close>, the new class object getting identity \<open>k\<close>.\<close>

definition derive_class :: "heap \<Rightarrow> cid \<Rightarrow> cid \<Rightarrow> heap" where
  "derive_class h k b = new_class h k (b # mro_tail h b)"

definition empty_heap :: heap where
  "empty_heap =
     \<lparr>mro_tail = (\<lambda>_. []), declared = (\<lambda>_. None), set_obj = (\<lambda>_. {}),
      next_addr = 0, next_cid = 0\<rparr>"

text \<open>
  The store is well formed when the attribute is carried only by classes whose
  identity has been handed out, every set object that a class refers to has been
  allocated, and every identity in a set object has been handed out (to a class that
  may be gone by now).
\<close>

definition wf_heap :: "heap \<Rightarrow> bool" where
  "wf_heap h \<longleftrightarrow>
     (\<forall>k a. declared h k = Some a \<longrightarrow> k < next_cid h \<and> a < next_addr h) \<and>
     (\<forall>a k. k \<in> set_obj h a \<longrightarrow> k < next_cid h)"

datatype error = SynthesisError | InvalidOptionCombination

text \<open>
  A synthesizer works in place when it returns the class it was given, or raises, and
  leaves the registries, the resolution orders and the allocation state as they are:
  the methods it adds to the class are not part of this store.
\<close>

definition in_place :: "'e synthesizer \<Rightarrow> bool" where
  "in_place synth \<longleftrightarrow>
     (\<forall>pc h. snd (synth pc h) = h \<and> (\<forall>k. fst (synth pc h) = Inr k \<longrightarrow> k = call_cls pc))"

definition process_in_place :: "error synthesizer" where
  "process_in_place pc h = (Inr (call_cls pc), h)"

definition process_failing :: "error synthesizer" where
  "process_failing pc h = (Inl SynthesisError, h)"

text \<open>
  Modelled from the spec: a Synthesizer that rejects \<^verbatim>\<open>hashing\<close> requested together
  with \<^verbatim>\<open>equality\<close> disabled by raising \<^verbatim>\<open>InvalidOptionCombination\<close> (the module
  itself has no such check; \<^verbatim>\<open>_process_class\<close> is not part of this repository).
\<close>

definition process_validating :: "error synthesizer" where
  "process_validating pc h =
     (if call_unsafe_hash pc \<and> \<not> call_eq pc then (Inl InvalidOptionCombination, h)
      else (Inr (call_cls pc), h))"

text \<open>
  Modelled from the spec: a Synthesizer that, asked for compact storage, returns a
  replacement class object (section 4.2, step 6). \<^verbatim>\<open>_process_class\<close> is not part of
  this repository; Python's own builds the replacement as
  \<^verbatim>\<open>type(cls)(cls.__name__, cls.__bases__, dict(cls.__dict__))\<close>: a new class object
  with the bases of the old one and a copy of its dictionary, so that the copy's entry
  \<^verbatim>\<open>__declared_dataclasses__\<close> refers to the very set object of the original. The
  original is still alive during the call, so the replacement has another identity:
  here one that has not been handed out before.
\<close>

definition replace_class :: "heap \<Rightarrow> cid \<Rightarrow> cid \<times> heap" where
  "replace_class h c =
     (next_cid h,
      h\<lparr>mro_tail := (mro_tail h)(next_cid h := mro_tail h c),
        declared := (declared h)(next_cid h := declared h c),
        next_cid := Suc (next_cid h)\<rparr>)"

definition process_slots :: "error synthesizer" where
  "process_slots pc h =
     (if call_slots pc then (let (k, h') = replace_class h (call_cls pc) in (Inr k, h'))
      else (Inr (call_cls pc), h))"

subsection \<open>The store that the synthesizer receives\<close>

text \<open>
  When \<^verbatim>\<open>wrap\<close> does not return early, lines 67-74 have run before
  \<^verbatim>\<open>_process_class\<close> is called: the store at that moment.
\<close>

definition declare_identity :: "heap \<Rightarrow> cid \<Rightarrow> heap" where
  "declare_identity h c =
     (case getattr_declared h c of
        None \<Rightarrow> (let (seen, h1) = new_set h in set_add (setattr_declared h1 c seen) seen c)
      | Some seen \<Rightarrow> set_add h seen c)"

subsection \<open>Concrete runs\<close>

text \<open>One class, identity 0, not yet decorated.\<close>

definition one_class_world :: world where
  "one_class_world = \<lparr>hp = new_class empty_heap 0 [], calls = []\<rparr>"

text \<open>
  \<^verbatim>\<open>
  @dataclass
  class Base: ...          # identity 0
  class Derived(Base): ... # identity 1, not decorated
  \<close>
\<close>

definition base_derived_world :: world where
  "base_derived_world =
     (let w1 = snd (wrap process_in_place default_options 0 one_class_world)
      in w1\<lparr>hp := derive_class (hp w1) 1 0\<rparr>)"

text \<open>
  \<^verbatim>\<open>
  class A: ...       # identity 0
  class B: ...       # identity 1
  class C(A, B): ... # identity 2, resolution order C, A, B
  \<close>
\<close>

definition mixin_world :: world where
  "mixin_world =
     (let h0 = new_class empty_heap 0 [];
          h1 = new_class h0 1 [];
          h2 = new_class h1 2 [0, 1]
      in \<lparr>hp = h2, calls = []\<rparr>)"

text \<open>The same three classes after \<^verbatim>\<open>dataclass(B)\<close>.\<close>

definition b_declared_world :: world where
  "b_declared_world = snd (wrap process_in_place default_options 1 mixin_world)"

text \<open>
  \<^verbatim>\<open>
  @dataclass
  class Base: ...       # identity 0
  @dataclass
  class Temp(Base): ... # identity 1
  \<close>
\<close>

definition temp_declared_world :: world where
  "temp_declared_world = snd (wrap process_in_place default_options 1 base_derived_world)"

definition slots_options :: options where
  "slots_options = default_options\<lparr>slots := True\<rparr>"

definition hash_without_eq :: options where
  "hash_without_eq = default_options\<lparr>unsafe_hash := True, eq := False\<rparr>"

text \<open>
  \<^verbatim>\<open>
  @dataclass(slots=True)
  class Base: ...    # identity 0 is submitted; Base then names the returned object
  \<close>
\<close>

definition slots_base_world :: world where
  "slots_base_world = snd (wrap process_slots slots_options 0 one_class_world)"

section \<open>Properties\<close>

subsection \<open>The two branches of the decorator\<close>

lemmas step_defs = wrap_def getattr_declared_def new_set_def setattr_declared_def
  set_add_def add_and_process_def process_args_def is_direct_dataclass_def declare_identity_def

lemmas env_defs = new_class_def derive_class_def replace_class_def empty_heap_def
  default_options_def process_in_place_def process_failing_def process_validating_def
  process_slots_def one_class_world_def base_derived_world_def mixin_world_def
  slots_options_def hash_without_eq_def

text \<open>The early return of line 73 is taken exactly when \<^verbatim>\<open>is_direct_dataclass\<close> holds.\<close>

lemma wrap_recorded:
  "is_direct_dataclass (hp w) c \<Longrightarrow> wrap synth opts c w = (Inr c, w)"
  by (auto simp: is_direct_dataclass_def wrap_def split: option.splits)

lemma wrap_not_recorded:
  "\<not> is_direct_dataclass (hp w) c \<Longrightarrow>
   wrap synth opts c w =
     (fst (synth (process_args opts c) (declare_identity (hp w) c)),
      \<lparr>hp = snd (synth (process_args opts c) (declare_identity (hp w) c)),
       calls = calls w @ [process_args opts c]\<rparr>)"
  by (auto simp: is_direct_dataclass_def wrap_def declare_identity_def add_and_process_def
        Let_def split: option.splits prod.splits)

lemma first_declared_set_obj [simp]:
  "first_declared (h\<lparr>set_obj := s\<rparr>) ks = first_declared h ks"
  by (induction ks) (auto split: option.splits)

lemma first_declared_next_addr [simp]:
  "first_declared (h\<lparr>next_addr := n\<rparr>) ks = first_declared h ks"
  by (induction ks) (auto split: option.splits)

lemma is_direct_declare_identity:
  "is_direct_dataclass (declare_identity h c) c"
  by (auto simp: is_direct_dataclass_def declare_identity_def getattr_declared_def new_set_def
        setattr_declared_def set_add_def split: option.splits)

lemma call_cls_process_args [simp]: "call_cls (process_args opts c) = c"
  by (simp add: process_args_def)

subsection \<open>Applying the decorator twice\<close>

text \<open>
  With a synthesizer that works in place, the second call returns the class again and
  changes nothing, and the synthesizer has run once if the class had not been declared
  before and not at all if it had.
\<close>

lemma wrap_twice_in_place:
  assumes "in_place synth" and "wrap synth opts c w = (Inr r, w1)"
  shows "r = c \<and> wrap synth opts r w1 = (Inr r, w1) \<and>
         (is_direct_dataclass (hp w) c \<longrightarrow> calls w1 = calls w) \<and>
         (\<not> is_direct_dataclass (hp w) c \<longrightarrow> calls w1 = calls w @ [process_args opts c])"
proof (cases "is_direct_dataclass (hp w) c")
  case True
  with assms(2) have "r = c" "w1 = w" by (simp_all add: wrap_recorded)
  with True show ?thesis by (simp add: wrap_recorded)
next
  case False
  let ?h = "declare_identity (hp w) c"
  let ?pc = "process_args opts c"
  from False assms(2) have r: "fst (synth ?pc ?h) = Inr r"
    and w1: "w1 = \<lparr>hp = snd (synth ?pc ?h), calls = calls w @ [?pc]\<rparr>"
    by (simp_all add: wrap_not_recorded)
  from assms(1) have same: "snd (synth ?pc ?h) = ?h" by (simp add: in_place_def)
  from assms(1) r have "r = call_cls ?pc" unfolding in_place_def by blast
  then have rc: "r = c" by simp
  have "is_direct_dataclass (hp w1) r" using w1 same rc by (simp add: is_direct_declare_identity)
  then have "wrap synth opts r w1 = (Inr r, w1)" by (rule wrap_recorded)
  with False rc w1 show ?thesis by simp
qed

text \<open>
  C1 at \<^verbatim>\<open>dataclass(slots=True)(dataclass(slots=True)(Foo))\<close>: the first call
  submits class 0 and returns the replacement, class 1. Line 74 has recorded the
  identity of class 0 only, so the second call, on class 1, does not take the early
  return: it is not a no-op, and the synthesizer is called a second time (what that
  second call returns or raises is not part of the statement). The module's header
  promises \<^verbatim>\<open>dataclass(Foo) == dataclass(dataclass(Foo))\<close>.
\<close>

theorem apply_twice_resynthesizes_replacement:
  "fst (wrap process_slots slots_options 0 one_class_world) = Inr 1 \<and>
   wrap process_slots slots_options 1 (snd (wrap process_slots slots_options 0 one_class_world))
     \<noteq> (Inr 1, snd (wrap process_slots slots_options 0 one_class_world)) \<and>
   length (calls (snd (wrap process_slots slots_options 1
     (snd (wrap process_slots slots_options 0 one_class_world))))) = 2"
  by (simp add: step_defs env_defs)

subsection \<open>Options that the synthesizer rejects\<close>

text \<open>
  C2, as stated, fails: \<^verbatim>\<open>wrap\<close> checks no option. An error for \<^verbatim>\<open>unsafe_hash\<close>
  without \<^verbatim>\<open>eq\<close> can only come from the synthesizer, which is called after line 74
  has recorded the identity; the class is directly declared afterwards.
\<close>

theorem rejected_options_counterexample:
  "\<not> is_direct_dataclass (hp one_class_world) 0 \<and>
   fst (wrap process_validating hash_without_eq 0 one_class_world) = Inl InvalidOptionCombination \<and>
   is_direct_dataclass (hp (snd (wrap process_validating hash_without_eq 0 one_class_world))) 0"
  by (simp add: step_defs env_defs)

text \<open>
  C2, amended: for every class not yet directly declared and all options, also those
  that ask for hashing with equality disabled, the decorator records the identity
  first and calls the synthesizer on a store in which the class is already directly
  declared; what the call returns or raises is what the decorator returns or raises;
  and when the synthesizer leaves that store as it is, the class is directly declared
  afterwards.
\<close>

theorem wrap_records_before_synthesis:
  assumes "\<not> is_direct_dataclass (hp w) c"
  shows "is_direct_dataclass (declare_identity (hp w) c) c \<and>
         wrap synth opts c w =
           (fst (synth (process_args opts c) (declare_identity (hp w) c)),
            \<lparr>hp = snd (synth (process_args opts c) (declare_identity (hp w) c)),
             calls = calls w @ [process_args opts c]\<rparr>) \<and>
         (snd (synth (process_args opts c) (declare_identity (hp w) c))
            = declare_identity (hp w) c \<longrightarrow>
          is_direct_dataclass (hp (snd (wrap synth opts c w))) c)"
  using assms by (simp add: wrap_not_recorded is_direct_declare_identity)

theorem wrap_records_before_synthesis_witness:
  "\<not> is_direct_dataclass (hp one_class_world) 0 \<and>
   is_direct_dataclass (declare_identity (hp one_class_world) 0) 0 \<and>
   fst (wrap process_validating hash_without_eq 0 one_class_world)
     = fst (process_validating (process_args hash_without_eq 0)
              (declare_identity (hp one_class_world) 0)) \<and>
   is_direct_dataclass (hp (snd (wrap process_validating hash_without_eq 0 one_class_world))) 0"
proof -
  have nd: "\<not> is_direct_dataclass (hp one_class_world) 0"
    by (simp add: step_defs env_defs)
  have same: "snd (process_validating (process_args hash_without_eq 0)
      (declare_identity (hp one_class_world) 0)) = declare_identity (hp one_class_world) 0"
    by (simp add: process_validating_def)
  from wrap_records_before_synthesis [OF nd, of process_validating hash_without_eq] nd same
  show ?thesis by simp
qed

subsection \<open>A subclass that inherits its registry\<close>

lemma getattr_declared_set_add [simp]:
  "getattr_declared (set_add h a c) k = getattr_declared h k"
  by (simp add: getattr_declared_def set_add_def split: option.splits)

text \<open>
  C3, as stated, fails: for a class that finds its registry on an ancestor, line 70 is
  not reached, nothing is attached to the class, and line 74 adds its identity to the
  set object of the ancestor.
\<close>

theorem inherited_registry_counterexample:
  "getattr_declared (hp base_derived_world) 1 = Some 0 \<and>
   declared (hp base_derived_world) 1 = None \<and>
   set_obj (hp base_derived_world) 0 = {0} \<and>
   declared (hp (snd (wrap process_in_place default_options 1 base_derived_world))) 1 = None \<and>
   set_obj (hp (snd (wrap process_in_place default_options 1 base_derived_world))) 0 = {0, 1}"
  by (auto simp add: step_defs env_defs)

text \<open>
  C3, amended: for every class whose registry is found by inherited lookup, is not
  attached to the class itself and does not hold its identity, the decorator attaches
  nothing and allocates no set: it adds the identity to the ancestor's registry, which
  is otherwise unchanged, and lookups from the class keep resolving to that registry;
  the synthesizer is called on this store.
\<close>

theorem inherited_registry_shared:
  assumes "declared (hp w) c = None" and "getattr_declared (hp w) c = Some a"
    and "c \<notin> set_obj (hp w) a"
  shows "wrap synth opts c w =
           (fst (synth (process_args opts c) (set_add (hp w) a c)),
            \<lparr>hp = snd (synth (process_args opts c) (set_add (hp w) a c)),
             calls = calls w @ [process_args opts c]\<rparr>) \<and>
         declared (set_add (hp w) a c) = declared (hp w) \<and>
         next_addr (set_add (hp w) a c) = next_addr (hp w) \<and>
         getattr_declared (set_add (hp w) a c) c = Some a \<and>
         set_obj (set_add (hp w) a c) = (set_obj (hp w))(a := insert c (set_obj (hp w) a))"
proof -
  from assms(2,3) have "\<not> is_direct_dataclass (hp w) c"
    by (simp add: is_direct_dataclass_def)
  moreover from assms(2) have "declare_identity (hp w) c = set_add (hp w) a c"
    by (simp add: declare_identity_def)
  ultimately show ?thesis using assms(2)
    by (simp add: wrap_not_recorded) (simp add: set_add_def)
qed

theorem inherited_registry_shared_witness:
  "declared (hp base_derived_world) 1 = None \<and>
   getattr_declared (hp base_derived_world) 1 = Some 0 \<and>
   1 \<notin> set_obj (hp base_derived_world) 0 \<and>
   hp (snd (wrap process_in_place default_options 1 base_derived_world))
     = set_add (hp base_derived_world) 0 1 \<and>
   getattr_declared (set_add (hp base_derived_world) 0 1) 1 = Some 0"
proof -
  have a: "declared (hp base_derived_world) 1 = None"
    by (simp add: step_defs env_defs)
  have b: "getattr_declared (hp base_derived_world) 1 = Some 0"
    by (simp add: step_defs env_defs)
  have c: "1 \<notin> set_obj (hp base_derived_world) 0"
    by (simp add: step_defs env_defs)
  from inherited_registry_shared [OF a b c, of process_in_place default_options] a b c
  show ?thesis by (simp add: process_in_place_def)
qed

subsection \<open>Decorating the returned class again\<close>

lemma wrap_in_place_returns:
  assumes "in_place synth" and "wrap synth opts c w = (Inr r, w1)"
  shows "r = c \<and> is_direct_dataclass (hp w1) c"
proof (cases "is_direct_dataclass (hp w) c")
  case True
  with assms(2) show ?thesis by (simp add: wrap_recorded)
next
  case False
  let ?h = "declare_identity (hp w) c"
  let ?pc = "process_args opts c"
  from False assms(2) have r: "fst (synth ?pc ?h) = Inr r"
    and w1: "w1 = \<lparr>hp = snd (synth ?pc ?h), calls = calls w @ [?pc]\<rparr>"
    by (simp_all add: wrap_not_recorded)
  from assms(1) have same: "snd (synth ?pc ?h) = ?h" by (simp add: in_place_def)
  from assms(1) r have "r = call_cls ?pc" unfolding in_place_def by blast
  with w1 same show ?thesis by (simp add: is_direct_declare_identity)
qed

text \<open>
  C5 at \<^verbatim>\<open>Alias = dataclass(slots=True)(Base)\<close>: the very object returned, class 1,
  is not reported as directly declared although it is what the decorator made of a
  declared class, and \<^verbatim>\<open>dataclass(slots=True)(Alias)\<close> calls the synthesizer once
  more, now for class 1, instead of returning early. The docstring of
  \<^verbatim>\<open>is_direct_dataclass\<close> says it returns True if the class is declared as a dataclass.
\<close>

theorem returned_replacement_not_direct:
  "fst (wrap process_slots slots_options 0 one_class_world) = Inr 1 \<and>
   \<not> is_direct_dataclass (hp (snd (wrap process_slots slots_options 0 one_class_world))) 1 \<and>
   calls (snd (wrap process_slots slots_options 0 one_class_world))
     = [ProcessClass 0 True True True False False False True False True] \<and>
   calls (snd (wrap process_slots slots_options 1
       (snd (wrap process_slots slots_options 0 one_class_world))))
     = [ProcessClass 0 True True True False False False True False True,
        ProcessClass 1 True True True False False False True False True]"
  by (simp add: step_defs env_defs)

subsection \<open>A synthesizer that raises\<close>



subsection \<open>The options that reach the synthesizer\<close>

text \<open>The nine options of the call are those of the caller.\<close>

lemma process_args_forwards:
  "process_args opts c =
     ProcessClass c (init opts) (repr opts) (eq opts) (order opts) (unsafe_hash opts)
       (frozen opts) (match_args opts) (kw_only opts) (slots opts)"
  by (simp add: process_args_def)

text \<open>The tenth, \<^verbatim>\<open>weakref_slot\<close>, is a parameter of \<^verbatim>\<open>dataclass\<close> and is not in
  the call.\<close>

lemma process_args_ignores_weakref_slot:
  "process_args (opts\<lparr>weakref_slot := b\<rparr>) c = process_args opts c"
  by (simp add: process_args_def)

text \<open>
  C7 at \<^verbatim>\<open>dataclass(slots=True, weakref_slot=True)\<close>: the synthesizer is called with
  the same nine arguments as for \<^verbatim>\<open>weakref_slot=False\<close>; the option is dropped.
\<close>

theorem weakref_slot_not_forwarded:
  "weakref_slot (slots_options\<lparr>weakref_slot := True\<rparr>) \<and>
   \<not> weakref_slot slots_options \<and>
   calls (snd (wrap process_in_place (slots_options\<lparr>weakref_slot := True\<rparr>) 0 one_class_world))
     = [ProcessClass 0 True True True False False False True False True] \<and>
   calls (snd (wrap process_in_place slots_options 0 one_class_world))
     = [ProcessClass 0 True True True False False False True False True]"
  by (simp add: step_defs env_defs)

subsection \<open>Well-formed stores\<close>

lemma first_declared_cong:
  "declared h = declared h' \<Longrightarrow> first_declared h ks = first_declared h' ks"
  by (induction ks) (auto split: option.splits)

lemma first_declared_upd_other:
  "x \<notin> set ks \<Longrightarrow> first_declared (h\<lparr>declared := (declared h)(x := v)\<rparr>) ks = first_declared h ks"
  by (induction ks) (auto split: option.splits)

lemma first_declared_allocated:
  "wf_heap h \<Longrightarrow> first_declared h ks = Some a \<Longrightarrow> a < next_addr h"
  by (induction ks) (auto simp: wf_heap_def split: option.splits)

lemma set_obj_set_add:
  "set_obj (set_add h a c) = (set_obj h)(a := insert c (set_obj h a))"
  by (simp add: set_add_def)

lemma wrap_in_place_heap:
  assumes "in_place synth"
  shows "hp (snd (wrap synth opts c w)) =
           (if is_direct_dataclass (hp w) c then hp w else declare_identity (hp w) c)"
  using assms by (simp add: wrap_recorded wrap_not_recorded in_place_def)

lemma next_cid_declare_identity [simp]:
  "next_cid (declare_identity h c) = next_cid h"
  by (simp add: declare_identity_def new_set_def setattr_declared_def set_add_def
        split: option.splits)

lemma mro_tail_declare_identity [simp]:
  "mro_tail (declare_identity h c) = mro_tail h"
  by (simp add: declare_identity_def new_set_def setattr_declared_def set_add_def
        split: option.splits)

lemma wf_declare_identity:
  assumes "wf_heap h" and "c < next_cid h"
  shows "wf_heap (declare_identity h c)"
proof (cases "getattr_declared h c")
  case None
  with assms show ?thesis
    by (auto simp: wf_heap_def declare_identity_def new_set_def setattr_declared_def
          set_add_def less_Suc_eq split: if_splits)
next
  case (Some a)
  with assms show ?thesis
    by (auto simp: wf_heap_def declare_identity_def set_add_def split: if_splits)
qed

lemma wf_wrap_in_place:
  "in_place synth \<Longrightarrow> wf_heap (hp w) \<Longrightarrow> c < next_cid (hp w) \<Longrightarrow>
   wf_heap (hp (snd (wrap synth opts c w)))"
  by (simp add: wrap_in_place_heap wf_declare_identity)

lemma wf_new_class: "wf_heap h \<Longrightarrow> wf_heap (new_class h k ancs)"
  by (auto simp: wf_heap_def new_class_def less_max_iff_disj split: if_splits)

lemma wf_empty_heap: "wf_heap empty_heap"
  by (simp add: wf_heap_def empty_heap_def)

text \<open>The decorator never takes a member out of a set object.\<close>

lemma registry_only_grows:
  assumes "wf_heap h" and "a < next_addr h"
  shows "set_obj h a \<subseteq> set_obj (declare_identity h c) a"
  using assms
  by (auto simp: declare_identity_def new_set_def setattr_declared_def set_add_def
        split: option.splits)

subsection \<open>Runs\<close>

lemma snd_exec_apply:
  "snd (exec synth (Apply opts c) w) = snd (wrap synth opts c w)"
  by (cases "wrap synth opts c w") (auto split: sum.splits)

lemma snd_run_Cons:
  "snd (run synth (x # xs) w) = snd (run synth xs (snd (exec synth x w)))"
  by (auto split: prod.splits)

lemma fst_run_Cons:
  "fst (run synth (x # xs) w) = fst (exec synth x w) # fst (run synth xs (snd (exec synth x w)))"
  by (auto split: prod.splits)

subsection \<open>Classes that were never submitted\<close>

lemma unrecorded_not_direct:
  "\<forall>a. d \<notin> set_obj h a \<Longrightarrow> \<not> is_direct_dataclass h d"
  by (simp add: is_direct_dataclass_def split: option.splits)

lemma declare_identity_members:
  "k \<in> set_obj (declare_identity h c) a \<Longrightarrow> k = c \<or> k \<in> set_obj h a"
  by (auto simp: declare_identity_def new_set_def setattr_declared_def set_add_def
        split: option.splits if_splits)

lemma wrap_other_unrecorded:
  assumes "in_place synth" and "c \<noteq> d" and "\<forall>a. d \<notin> set_obj (hp w) a"
  shows "\<forall>a. d \<notin> set_obj (hp (snd (wrap synth opts c w))) a"
  using assms by (auto simp: wrap_in_place_heap dest: declare_identity_members)

lemma run_unrecorded:
  assumes "in_place synth"
  shows "\<forall>opts. Apply opts d \<notin> set cs \<Longrightarrow> \<forall>a. d \<notin> set_obj (hp w) a \<Longrightarrow>
         \<forall>a. d \<notin> set_obj (hp (snd (run synth cs w))) a"
proof (induction cs arbitrary: w)
  case Nil
  then show ?case by simp
next
  case (Cons x xs)
  have step: "\<forall>a. d \<notin> set_obj (hp (snd (exec synth x w))) a"
  proof (cases x)
    case (Apply opts c)
    with Cons.prems(1) have "c \<noteq> d" by auto
    from wrap_other_unrecorded [OF assms this Cons.prems(2), of opts] Apply
    show ?thesis by (simp add: snd_exec_apply del: exec.simps)
  next
    case (IsDirect c)
    with Cons.prems(2) show ?thesis by simp
  qed
  from Cons.prems(1) have "\<forall>opts. Apply opts d \<notin> set xs" by simp
  from Cons.IH [OF this step] show ?case by (simp add: snd_run_Cons del: run.simps)
qed

lemma first_declared_Some_iff:
  "(\<exists>a. first_declared h ks = Some a) \<longleftrightarrow> (\<exists>k \<in> set ks. declared h k \<noteq> None)"
  by (induction ks) (auto split: option.splits)

text \<open>
  Where the claim holds. The synthesizer works in place, and the new class gets an
  identity that no set object holds (no stale integer of a collected class). Its
  resolution order holds that of its base, and the class is not its own ancestor. Then
  lookup from the new class finds a registry, on an ancestor, and its own identity is not
  in it; it stays undeclared as long as it is not submitted.
\<close>

lemma unsubmitted_subclass_not_direct:
  assumes "in_place synth" and "wrap synth opts base w = (Inr r, w1)"
    and "set (r # mro_tail (hp w1) r) \<subseteq> set ancs" and "k \<notin> set ancs"
    and "\<forall>a. k \<notin> set_obj (hp w1) a"
    and "\<forall>opts'. Apply opts' k \<notin> set cs"
  shows "r = base \<and> is_direct_dataclass (hp w1) base \<and>
         getattr_declared (new_class (hp w1) k ancs) k = first_declared (hp w1) ancs \<and>
         (\<exists>a. getattr_declared (new_class (hp w1) k ancs) k = Some a \<and>
              k \<notin> set_obj (new_class (hp w1) k ancs) a) \<and>
         \<not> is_direct_dataclass (new_class (hp w1) k ancs) k \<and>
         \<not> is_direct_dataclass
             (hp (snd (run synth cs (w1\<lparr>hp := new_class (hp w1) k ancs\<rparr>)))) k"
proof -
  let ?h2 = "new_class (hp w1) k ancs"
  from wrap_in_place_returns [OF assms(1,2)]
  have rb: "r = base" and b1: "is_direct_dataclass (hp w1) base" by simp_all
  have "getattr_declared ?h2 k =
      first_declared ((hp w1)\<lparr>declared := (declared (hp w1))(k := None)\<rparr>) ancs"
    by (simp add: getattr_declared_def new_class_def first_declared_cong
          [of "(hp w1)\<lparr>mro_tail := m, declared := d, next_cid := n\<rparr>" "(hp w1)\<lparr>declared := d\<rparr>" for m d n])
  also have "\<dots> = first_declared (hp w1) ancs"
    by (rule first_declared_upd_other [OF assms(4)])
  finally have g: "getattr_declared ?h2 k = first_declared (hp w1) ancs" .
  from b1 rb have "\<exists>a. first_declared (hp w1) (r # mro_tail (hp w1) r) = Some a"
    by (auto simp: is_direct_dataclass_def getattr_declared_def split: option.splits)
  then have "\<exists>x \<in> set (r # mro_tail (hp w1) r). declared (hp w1) x \<noteq> None"
    by (simp only: first_declared_Some_iff)
  with assms(3) have "\<exists>x \<in> set ancs. declared (hp w1) x \<noteq> None" by blast
  then have "\<exists>a. first_declared (hp w1) ancs = Some a"
    by (simp only: first_declared_Some_iff)
  then obtain a where a: "getattr_declared ?h2 k = Some a" using g by auto
  from assms(5) have un: "\<forall>a. k \<notin> set_obj (hp (w1\<lparr>hp := ?h2\<rparr>)) a"
    by (simp add: new_class_def)
  then have d2: "\<not> is_direct_dataclass ?h2 k" using unrecorded_not_direct [of k ?h2] by simp
  from run_unrecorded [OF assms(1,6) un]
  have d3: "\<not> is_direct_dataclass (hp (snd (run synth cs (w1\<lparr>hp := ?h2\<rparr>)))) k"
    by (rule unrecorded_not_direct)
  from un have "k \<notin> set_obj ?h2 a" by simp
  with rb b1 g a d2 d3 show ?thesis by blast
qed

text \<open>
  A class statement that is handed the identity of a collected class: \<^verbatim>\<open>Temp\<close>,
  identity 1, was decorated and is gone; \<^verbatim>\<open>class Derived(Base)\<close> gets identity 1 again
  and is reported as directly declared without ever having been submitted.
\<close>

lemma stale_identity_reported_direct:
  "is_direct_dataclass (hp temp_declared_world) 1 \<and>
   set_obj (hp temp_declared_world) 0 = {0, 1} \<and>
   is_direct_dataclass (derive_class (hp temp_declared_world) 1 0) 1"
  by (auto simp add: temp_declared_world_def step_defs env_defs)

text \<open>
  C4 at
  \<^verbatim>\<open>
  @dataclass(slots=True)
  class Base: ...           # class 0 is submitted, class 1 is returned
  class Derived(Base): ...  # class 2, a subclass of the returned class
  \<close>
  The augmented \<^verbatim>\<open>Base\<close>, class 1, and its subclass both look the set of class 0 up
  (the copied dictionary entry, and inheritance from it), and that set holds the
  identity of class 0 only: \<^verbatim>\<open>is_direct_dataclass\<close> is False for both, and the
  directly declared class is not told from the one that inherits. Only the class
  object that the decorator has replaced is reported as declared.
\<close>

theorem slots_base_not_told_from_derived:
  "fst (wrap process_slots slots_options 0 one_class_world) = Inr 1 \<and>
   getattr_declared (derive_class (hp slots_base_world) 2 1) 1 = Some 0 \<and>
   getattr_declared (derive_class (hp slots_base_world) 2 1) 2 = Some 0 \<and>
   set_obj (derive_class (hp slots_base_world) 2 1) 0 = {0} \<and>
   \<not> is_direct_dataclass (hp slots_base_world) 1 \<and>
   \<not> is_direct_dataclass (derive_class (hp slots_base_world) 2 1) 1 \<and>
   \<not> is_direct_dataclass (derive_class (hp slots_base_world) 2 1) 2 \<and>
   is_direct_dataclass (derive_class (hp slots_base_world) 2 1) 0"
  by (simp add: slots_base_world_def step_defs env_defs)

subsection \<open>Classes outside the hierarchy\<close>

lemma is_direct_declare_identity_other:
  assumes "wf_heap h" and "x \<noteq> y" and "x \<notin> set (mro_tail h y)"
  shows "is_direct_dataclass (declare_identity h x) y = is_direct_dataclass h y"
proof (cases "getattr_declared h x")
  case (Some a)
  with assms(2) show ?thesis
    by (auto simp: declare_identity_def is_direct_dataclass_def set_obj_set_add
          split: option.splits)
next
  case None
  let ?h2 = "declare_identity h x"
  from assms(2,3) have notin: "x \<notin> set (y # mro_tail h y)" by simp
  have d: "declared ?h2 = (declared h)(x := Some (next_addr h))"
    using None by (simp add: declare_identity_def new_set_def setattr_declared_def set_add_def)
  have "getattr_declared ?h2 y =
      first_declared (h\<lparr>declared := (declared h)(x := Some (next_addr h))\<rparr>) (y # mro_tail h y)"
    unfolding getattr_declared_def mro_tail_declare_identity
    by (rule first_declared_cong) (simp add: d)
  also have "\<dots> = getattr_declared h y"
    unfolding getattr_declared_def by (rule first_declared_upd_other [OF notin])
  finally have g: "getattr_declared ?h2 y = getattr_declared h y" .
  show ?thesis
  proof (cases "getattr_declared h y")
    case None
    with g show ?thesis by (simp add: is_direct_dataclass_def)
  next
    case (Some a)
    with assms(1) have "a < next_addr h"
      unfolding getattr_declared_def by (rule first_declared_allocated)
    then have "set_obj ?h2 a = set_obj h a"
      using None by (simp add: declare_identity_def new_set_def setattr_declared_def set_add_def)
    with g Some show ?thesis by (simp add: is_direct_dataclass_def)
  qed
qed

text \<open>
  C9: on a well-formed store, decorating \<open>x\<close> leaves the answer of
  \<^verbatim>\<open>is_direct_dataclass\<close> for every other class \<open>y\<close> that does not have \<open>x\<close> among
  its ancestors as it was, provided the synthesizer does not change that answer
  itself. Classes with no inheritance relationship are a special case: \<open>y\<close> may even
  be an ancestor of \<open>x\<close>, or share ancestors and a registry with it.
\<close>

theorem unrelated_class_untouched:
  assumes "wf_heap (hp w)" and "x \<noteq> y" and "x \<notin> set (mro_tail (hp w) y)"
    and "\<forall>pc h. is_direct_dataclass (snd (synth pc h)) y = is_direct_dataclass h y"
  shows "is_direct_dataclass (hp (snd (wrap synth opts x w))) y = is_direct_dataclass (hp w) y"
proof (cases "is_direct_dataclass (hp w) x")
  case True
  then show ?thesis by (simp add: wrap_recorded)
next
  case False
  then have "hp (snd (wrap synth opts x w))
      = snd (synth (process_args opts x) (declare_identity (hp w) x))"
    by (simp add: wrap_not_recorded)
  with assms(4) is_direct_declare_identity_other [OF assms(1-3)] show ?thesis by simp
qed

theorem unrelated_class_untouched_witness:
  "wf_heap (hp b_declared_world) \<and> (0::nat) \<noteq> 1 \<and>
   0 \<notin> set (mro_tail (hp b_declared_world) 1) \<and>
   1 \<notin> set (mro_tail (hp b_declared_world) 0) \<and>
   (\<forall>pc h. is_direct_dataclass (snd (process_in_place pc h)) 1 = is_direct_dataclass h 1) \<and>
   is_direct_dataclass (hp b_declared_world) 1 \<and>
   \<not> is_direct_dataclass (hp b_declared_world) 0 \<and>
   is_direct_dataclass (hp (snd (wrap process_in_place default_options 0 b_declared_world))) 0 \<and>
   is_direct_dataclass (hp (snd (wrap process_in_place default_options 0 b_declared_world))) 1"
proof -
  have wf: "wf_heap (hp b_declared_world)"
    by (simp add: wf_heap_def b_declared_world_def step_defs env_defs)
  have ne: "(0::nat) \<noteq> 1" by simp
  have m: "0 \<notin> set (mro_tail (hp b_declared_world) 1)"
    by (simp add: b_declared_world_def step_defs env_defs)
  have m': "1 \<notin> set (mro_tail (hp b_declared_world) 0)"
    by (simp add: b_declared_world_def step_defs env_defs)
  have fr: "\<forall>pc h. is_direct_dataclass (snd (process_in_place pc h)) 1 = is_direct_dataclass h 1"
    by (simp add: process_in_place_def)
  have y: "is_direct_dataclass (hp b_declared_world) 1"
    by (simp add: b_declared_world_def step_defs env_defs)
  have x: "\<not> is_direct_dataclass (hp b_declared_world) 0"
    by (simp add: b_declared_world_def step_defs env_defs)
  have x': "is_direct_dataclass
      (hp (snd (wrap process_in_place default_options 0 b_declared_world))) 0"
    by (simp add: b_declared_world_def step_defs env_defs)
  from unrelated_class_untouched [OF wf ne m fr, of default_options] wf ne m m' fr y x x'
  show ?thesis by simp
qed

subsection \<open>A declared class whose ancestor is decorated later\<close>

text \<open>
  C8 at the run
  \<^verbatim>\<open>
  class A: ...
  class B: ...
  class C(A, B): ...
  dataclass(B); dataclass(C); is_direct_dataclass(C)   # True
  dataclass(A); is_direct_dataclass(C)                 # False
  \<close>
  No member leaves a set object (lemma \<open>registry_only_grows\<close>), but \<^verbatim>\<open>dataclass(A)\<close>
  attaches a new set to \<^verbatim>\<open>A\<close>, which precedes \<^verbatim>\<open>B\<close> in the resolution order of
  \<^verbatim>\<open>C\<close>: lookup from \<^verbatim>\<open>C\<close> now ends at the set of \<^verbatim>\<open>A\<close>, and the identity of \<^verbatim>\<open>C\<close>
  is in the set of \<^verbatim>\<open>B\<close>.
\<close>

theorem is_direct_lost_after_ancestor_applied:
  "fst (run process_in_place
     [Apply default_options 1, Apply default_options 2, IsDirect 2,
      Apply default_options 0, IsDirect 2] mixin_world)
   = [Returned 1, Returned 2, Answered True, Returned 0, Answered False]"
  by (simp add: step_defs env_defs)

subsection \<open>Queries change nothing\<close>

lemma run_is_direct_only:
  "run synth (map IsDirect cs) w = (map (\<lambda>c. Answered (is_direct_dataclass (hp w) c)) cs, w)"
  by (induction cs) simp_all

lemma run_without_queries:
  "snd (run synth xs w) = snd (run synth (filter is_apply xs) w) \<and>
   filter of_apply (fst (run synth xs w)) = fst (run synth (filter is_apply xs) w)"
proof (induction xs arbitrary: w)
  case Nil
  show ?case by simp
next
  case (Cons x xs)
  show ?case
  proof (cases x)
    case (IsDirect c)
    with Cons.IH [of w] show ?thesis
      by (simp add: snd_run_Cons fst_run_Cons del: run.simps)
  next
    case (Apply opts c)
    have a: "of_apply (fst (exec synth (Apply opts c) w))"
      by (cases "wrap synth opts c w") (auto split: sum.splits)
    from Cons.IH [of "snd (exec synth x w)"] Apply a show ?thesis
      by (simp add: snd_run_Cons fst_run_Cons del: run.simps exec.simps)
  qed
qed

text \<open>
  C10: a call of \<^verbatim>\<open>is_direct_dataclass\<close> leaves the state as it was, and so does any
  number of them: every call that follows gives what it would have given without them.
  Taking all queries out of a sequence of calls changes neither the final state nor the
  outcomes of the decorator calls. When no registry is reachable from the class, the
  answer is False and still no registry is reachable afterwards.
\<close>

theorem is_direct_observer_only:
  "snd (exec synth (IsDirect c) w) = w \<and>
   snd (run synth (map IsDirect cs) w) = w \<and>
   exec synth x (snd (run synth (map IsDirect cs) w)) = exec synth x w \<and>
   snd (run synth xs w) = snd (run synth (filter is_apply xs) w) \<and>
   filter of_apply (fst (run synth xs w)) = fst (run synth (filter is_apply xs) w) \<and>
   (getattr_declared (hp w) c = None \<longrightarrow>
      fst (exec synth (IsDirect c) w) = Answered False \<and>
      getattr_declared (hp (snd (exec synth (IsDirect c) w))) c = None)"
  using run_without_queries [of synth xs w]
  by (simp add: run_is_direct_only is_direct_dataclass_def)

theorem is_direct_observer_only_witness:
  "getattr_declared (hp one_class_world) 0 = None \<and>
   fst (exec process_in_place (IsDirect 0) one_class_world) = Answered False \<and>
   snd (exec process_in_place (IsDirect 0) one_class_world) = one_class_world \<and>
   getattr_declared (hp (snd (exec process_in_place (IsDirect 0) one_class_world))) 0 = None \<and>
   fst (run process_in_place [IsDirect 0, Apply default_options 0, IsDirect 0] one_class_world)
     = [Answered False, Returned 0, Answered True] \<and>
   snd (run process_in_place [IsDirect 0, Apply default_options 0, IsDirect 0] one_class_world)
     = snd (run process_in_place [Apply default_options 0] one_class_world)"
proof -
  have g: "getattr_declared (hp one_class_world) 0 = None"
    by (simp add: step_defs env_defs)
  have a: "fst (run process_in_place [IsDirect 0, Apply default_options 0, IsDirect 0]
      one_class_world) = [Answered False, Returned 0, Answered True]"
    by (simp add: step_defs env_defs)
  from is_direct_observer_only [of process_in_place 0 one_class_world "[0]"
      "IsDirect 0" "[IsDirect 0, Apply default_options 0, IsDirect 0]"] g a
  show ?thesis by (simp del: run.simps exec.simps)
qed

end
